theory Spec2Isabelle
  imports Main "HOL-Library.Sublist"
begin

section \<open>Exceptions (exceptions/atm\_exceptions.py)\<close>

text \<open>
  Every exception class of the source is a constructor carrying the message it was raised
  with.  \<open>ATMException\<close> is the base class raised directly by the controller for state
  violations and for non-positive amounts; the source has no dedicated class for either.
  \<open>ValueError\<close> and \<open>AttributeError\<close> are the Python built-ins that the data classes,
  the mock collaborators and attribute access on \<open>None\<close> raise; \<open>OtherException\<close>
  stands for any further exception a collaborator implementation may raise.
\<close>

datatype exn =
    ATMException string
  | InvalidCardException string
  | InvalidPinException string
  | AccountNotFoundException string
  | InsufficientFundsException string
  | InsufficientCashException string
  | TransactionLimitExceededException string
  | ATMMaintenanceException string
  | ValueError string
  | AttributeError string
  | OtherException string

text \<open>\<open>except InvalidPinException\<close>: the class has no subclass, so the handler catches
  exactly the instances of this constructor.\<close>

fun is_InvalidPinException :: "exn \<Rightarrow> bool" where
  "is_InvalidPinException (InvalidPinException m) = True"
| "is_InvalidPinException e = False"

section \<open>Data model (models/)\<close>

text \<open>
  Instants (\<open>datetime\<close>) are integers on an abstract time line; amounts and balances are
  Python's unbounded integers.  Strings are character lists, so \<open>length\<close> agrees with
  Python's \<open>len\<close> on ASCII card numbers.
\<close>

record Card =
  card_number :: string
  holder_name :: string
  expiry_date :: int
  card_type :: string
  is_active :: bool

text \<open>\<open>Card.__post_init__\<close>, with the reading of \<open>datetime.now()\<close> passed in.\<close>

definition Card_init :: "string \<Rightarrow> string \<Rightarrow> int \<Rightarrow> string \<Rightarrow> bool \<Rightarrow> int \<Rightarrow> exn + Card" where
  "Card_init number holder expiry ctype active now =
     (if number = [] \<or> length number < 12 then Inl (ValueError ''Invalid card number'')
      else if holder = [] then Inl (ValueError ''Cardholder name is required'')
      else Inr \<lparr>card_number = number, holder_name = holder, expiry_date = expiry,
                card_type = ctype,
                is_active = (if expiry < now then False else active)\<rparr>)"

definition is_expired :: "Card \<Rightarrow> int \<Rightarrow> bool" where
  "is_expired crd now = (now > expiry_date crd)"

datatype TransactionType = DEPOSIT | WITHDRAWAL | BALANCE_INQUIRY

record Transaction =
  transaction_type :: TransactionType
  amount :: int
  account_number :: string
  balance_after :: int
  transaction_id :: string
  timestamp :: int

datatype AccountType = CHECKING | SAVINGS | CREDIT

record Account =
  account_number :: string
  account_type :: AccountType
  balance :: int
  account_name :: string
  is_active :: bool
  daily_withdrawal_limit :: "int option"

text \<open>\<open>Account.__post_init__\<close>: validation, then the default limit by account type when
  none was given.\<close>

definition Account_init ::
  "string \<Rightarrow> AccountType \<Rightarrow> int \<Rightarrow> string \<Rightarrow> bool \<Rightarrow> int option \<Rightarrow> exn + Account" where
  "Account_init number atype bal name active limit =
     (if number = [] then Inl (ValueError ''Account number is required'')
      else if name = [] then Inl (ValueError ''Account name is required'')
      else Inr \<lparr>account_number = number, account_type = atype, balance = bal,
                account_name = name, is_active = active,
                daily_withdrawal_limit =
                  (case limit of
                     None \<Rightarrow> (if atype = CHECKING then Some 1000
                              else if atype = SAVINGS then Some 500
                              else Some 300)
                   | Some l \<Rightarrow> Some l)\<rparr>)"

text \<open>Python truthiness of an \<open>Optional[int]\<close>: \<open>None\<close> and \<open>0\<close> are false.\<close>

definition truthy :: "int option \<Rightarrow> bool" where
  "truthy v = (case v of None \<Rightarrow> False | Some n \<Rightarrow> n \<noteq> 0)"

text \<open>\<open>Account.can_withdraw\<close>.  The limit test is
  \<open>self.daily_withdrawal_limit and amount > self.daily_withdrawal_limit\<close>; comparing with
  \<open>None\<close> is never reached because \<open>and\<close> short-circuits.\<close>

definition can_withdraw :: "Account \<Rightarrow> int \<Rightarrow> bool" where
  "can_withdraw a amt =
     (if \<not> is_active a then False
      else if amt \<le> 0 then False
      else if truthy (daily_withdrawal_limit a)
              \<and> (case daily_withdrawal_limit a of Some l \<Rightarrow> amt > l | None \<Rightarrow> False)
           then False
      else if account_type a = CREDIT then True
      else balance a \<ge> amt)"

section \<open>Collaborator interfaces (interfaces/)\<close>

text \<open>
  Each abstract base class is a record of its methods.  A method takes the state of the
  collaborator object and returns the value it returns or the exception it raises, together
  with the object's new state; the three collaborators have separate states, as they are
  separate objects.
\<close>

record 'b BankService =
  validate_card :: "string \<Rightarrow> 'b \<Rightarrow> (exn + bool) \<times> 'b"
  verify_pin :: "string \<Rightarrow> string \<Rightarrow> 'b \<Rightarrow> (exn + bool) \<times> 'b"
  get_accounts :: "string \<Rightarrow> 'b \<Rightarrow> (exn + Account list) \<times> 'b"
  get_account :: "string \<Rightarrow> 'b \<Rightarrow> (exn + Account option) \<times> 'b"
  get_balance :: "string \<Rightarrow> 'b \<Rightarrow> (exn + int) \<times> 'b"
  deposit :: "string \<Rightarrow> int \<Rightarrow> 'b \<Rightarrow> (exn + int) \<times> 'b"
  withdraw :: "string \<Rightarrow> int \<Rightarrow> 'b \<Rightarrow> (exn + int) \<times> 'b"

record 'd CashDispenser =
  has_sufficient_cash :: "int \<Rightarrow> 'd \<Rightarrow> (exn + bool) \<times> 'd"
  dispense_cash :: "int \<Rightarrow> 'd \<Rightarrow> (exn + bool) \<times> 'd"
  get_available_cash :: "'d \<Rightarrow> (exn + int) \<times> 'd"
  refill_cash :: "int \<Rightarrow> 'd \<Rightarrow> (exn + bool) \<times> 'd"

record 'r CardReader =
  read_card :: "string \<Rightarrow> 'r \<Rightarrow> (exn + Card) \<times> 'r"
  eject_card :: "'r \<Rightarrow> (exn + bool) \<times> 'r"
  is_card_inserted :: "'r \<Rightarrow> (exn + bool) \<times> 'r"

text \<open>The two library calls of \<open>Transaction.__post_init__\<close>: \<open>uuid.uuid4()\<close> and
  \<open>datetime.now()\<close>, reading and advancing a state of their own.\<close>

record 'e Runtime =
  uuid4 :: "'e \<Rightarrow> string \<times> 'e"
  now :: "'e \<Rightarrow> int \<times> 'e"

record ('b, 'd, 'r, 'e) Implementations =
  bank_impl :: "'b BankService"
  dispenser_impl :: "'d CashDispenser"
  reader_impl :: "'r CardReader"
  runtime_impl :: "'e Runtime"

section \<open>Mock collaborators (mocks/)\<close>

subsection \<open>MockBankService\<close>

text \<open>
  The three dictionaries of the mock.  Accounts are passed by value here.  In the source
  \<open>get_account\<close> hands out the very object stored in \<open>_accounts\<close>, so with this mock the
  account held by the controller is the ledger's own object and its \<open>balance\<close> always shows
  the ledger's current balance; what the methods return, what they raise and what the
  collaborators are asked do not depend on that sharing, since every assignment of the
  controller to the held balance writes the value the bank has just returned for the same
  account number.
\<close>

record MockBankService =
  cards :: "string \<rightharpoonup> (string \<times> bool)"
  accounts :: "string \<rightharpoonup> Account"
  card_accounts :: "string \<rightharpoonup> string list"

definition MockBankService_init :: MockBankService where
  "MockBankService_init =
     \<lparr>cards = [''1234567890123456'' \<mapsto> (''1234'', True),
               ''2345678901234567'' \<mapsto> (''5678'', True),
               ''3456789012345678'' \<mapsto> (''9999'', False)],
      accounts =
        [''1001'' \<mapsto> \<lparr>account_number = ''1001'', account_type = CHECKING, balance = 1000,
                      account_name = ''Primary Checking'', is_active = True,
                      daily_withdrawal_limit = Some 1000\<rparr>,
         ''1002'' \<mapsto> \<lparr>account_number = ''1002'', account_type = SAVINGS, balance = 5000,
                      account_name = ''Primary Savings'', is_active = True,
                      daily_withdrawal_limit = Some 500\<rparr>,
         ''2001'' \<mapsto> \<lparr>account_number = ''2001'', account_type = CHECKING, balance = 750,
                      account_name = ''Business Checking'', is_active = True,
                      daily_withdrawal_limit = Some 1000\<rparr>],
      card_accounts = [''1234567890123456'' \<mapsto> [''1001'', ''1002''],
                       ''2345678901234567'' \<mapsto> [''2001'']]\<rparr>"

definition mock_validate_card :: "string \<Rightarrow> MockBankService \<Rightarrow> (exn + bool) \<times> MockBankService" where
  "mock_validate_card number b =
     (case cards b number of
        None \<Rightarrow> (Inr False, b)
      | Some (pin, valid) \<Rightarrow> (Inr valid, b))"

definition mock_verify_pin ::
  "string \<Rightarrow> string \<Rightarrow> MockBankService \<Rightarrow> (exn + bool) \<times> MockBankService" where
  "mock_verify_pin number pin b =
     (case cards b number of
        None \<Rightarrow> (Inr False, b)
      | Some (p, valid) \<Rightarrow> if \<not> valid then (Inr False, b) else (Inr (p = pin), b))"

text \<open>The loop of \<open>get_accounts\<close>: the account numbers in order, those without an account
  skipped.\<close>

fun lookup_accounts :: "(string \<rightharpoonup> Account) \<Rightarrow> string list \<Rightarrow> Account list" where
  "lookup_accounts m [] = []"
| "lookup_accounts m (n # ns) =
     (case m n of
        None \<Rightarrow> lookup_accounts m ns
      | Some a \<Rightarrow> a # lookup_accounts m ns)"

definition mock_get_accounts ::
  "string \<Rightarrow> MockBankService \<Rightarrow> (exn + Account list) \<times> MockBankService" where
  "mock_get_accounts number b =
     (Inr (lookup_accounts (accounts b)
             (case card_accounts b number of None \<Rightarrow> [] | Some ns \<Rightarrow> ns)), b)"

definition mock_get_account ::
  "string \<Rightarrow> MockBankService \<Rightarrow> (exn + Account option) \<times> MockBankService" where
  "mock_get_account number b = (Inr (accounts b number), b)"

definition mock_get_balance :: "string \<Rightarrow> MockBankService \<Rightarrow> (exn + int) \<times> MockBankService" where
  "mock_get_balance number b =
     (case accounts b number of
        None \<Rightarrow> (Inl (ValueError (''Account '' @ number @ '' not found'')), b)
      | Some a \<Rightarrow> (Inr (balance a), b))"

definition mock_deposit ::
  "string \<Rightarrow> int \<Rightarrow> MockBankService \<Rightarrow> (exn + int) \<times> MockBankService" where
  "mock_deposit number amt b =
     (case accounts b number of
        None \<Rightarrow> (Inl (ValueError (''Account '' @ number @ '' not found'')), b)
      | Some a \<Rightarrow>
          if amt \<le> 0 then (Inl (ValueError ''Deposit amount must be positive''), b)
          else (Inr (balance a + amt),
                b\<lparr>accounts := (accounts b)(number \<mapsto> a\<lparr>balance := balance a + amt\<rparr>)\<rparr>))"

definition mock_withdraw ::
  "string \<Rightarrow> int \<Rightarrow> MockBankService \<Rightarrow> (exn + int) \<times> MockBankService" where
  "mock_withdraw number amt b =
     (case accounts b number of
        None \<Rightarrow> (Inl (ValueError (''Account '' @ number @ '' not found'')), b)
      | Some a \<Rightarrow>
          if amt \<le> 0 then (Inl (ValueError ''Withdrawal amount must be positive''), b)
          else if balance a < amt
          then (Inl (InsufficientFundsException ''Insufficient funds in account''), b)
          else (Inr (balance a - amt),
                b\<lparr>accounts := (accounts b)(number \<mapsto> a\<lparr>balance := balance a - amt\<rparr>)\<rparr>))"

definition MockBankService_impl :: "MockBankService BankService" where
  "MockBankService_impl =
     \<lparr>validate_card = mock_validate_card, verify_pin = mock_verify_pin,
      get_accounts = mock_get_accounts, get_account = mock_get_account,
      get_balance = mock_get_balance, deposit = mock_deposit, withdraw = mock_withdraw\<rparr>"

subsection \<open>MockCashDispenser\<close>

record MockCashDispenser =
  available_cash :: int
  total_dispensed :: int

definition MockCashDispenser_init :: "int \<Rightarrow> MockCashDispenser" where
  "MockCashDispenser_init initial_cash = \<lparr>available_cash = initial_cash, total_dispensed = 0\<rparr>"

definition mock_has_sufficient_cash ::
  "int \<Rightarrow> MockCashDispenser \<Rightarrow> (exn + bool) \<times> MockCashDispenser" where
  "mock_has_sufficient_cash amt d = (Inr (available_cash d \<ge> amt), d)"

text \<open>The message of the \<open>InsufficientCashException\<close> is shortened: the source appends the
  available and the requested amount.\<close>

definition mock_dispense_cash ::
  "int \<Rightarrow> MockCashDispenser \<Rightarrow> (exn + bool) \<times> MockCashDispenser" where
  "mock_dispense_cash amt d =
     (if amt \<le> 0 then (Inl (ValueError ''Dispense amount must be positive''), d)
      else if \<not> (available_cash d \<ge> amt)
      then (Inl (InsufficientCashException ''Insufficient cash in ATM''), d)
      else (Inr True, d\<lparr>available_cash := available_cash d - amt,
                        total_dispensed := total_dispensed d + amt\<rparr>))"

definition mock_get_available_cash :: "MockCashDispenser \<Rightarrow> (exn + int) \<times> MockCashDispenser" where
  "mock_get_available_cash d = (Inr (available_cash d), d)"

definition mock_refill_cash :: "int \<Rightarrow> MockCashDispenser \<Rightarrow> (exn + bool) \<times> MockCashDispenser" where
  "mock_refill_cash amt d =
     (if amt \<le> 0 then (Inl (ValueError ''Refill amount must be positive''), d)
      else (Inr True, d\<lparr>available_cash := available_cash d + amt\<rparr>))"

definition MockCashDispenser_impl :: "MockCashDispenser CashDispenser" where
  "MockCashDispenser_impl =
     \<lparr>has_sufficient_cash = mock_has_sufficient_cash, dispense_cash = mock_dispense_cash,
      get_available_cash = mock_get_available_cash, refill_cash = mock_refill_cash\<rparr>"

text \<open>
  A second implementation of the \<open>CashDispenser\<close> interface, not part of the repository: it
  counts its inventory like the mock, but its mechanism cannot pay out, and \<open>dispense_cash\<close>
  raises the exception the interface documents for it.
\<close>

definition jammed_dispense_cash ::
  "int \<Rightarrow> MockCashDispenser \<Rightarrow> (exn + bool) \<times> MockCashDispenser" where
  "jammed_dispense_cash amt d = (Inl (InsufficientCashException ''Dispenser jammed''), d)"

definition JammedCashDispenser_impl :: "MockCashDispenser CashDispenser" where
  "JammedCashDispenser_impl =
     \<lparr>has_sufficient_cash = mock_has_sufficient_cash, dispense_cash = jammed_dispense_cash,
      get_available_cash = mock_get_available_cash, refill_cash = mock_refill_cash\<rparr>"

subsection \<open>MockCardReader\<close>

text \<open>
  \<open>card_info\<close> maps a card number to holder name, expiry date and card type.  \<open>clock\<close> is
  what \<open>datetime.now()\<close> reads while the reader handles a card; the mock is constructed at
  some instant \<open>t0\<close>, from which the expiry dates of its three cards are computed (in
  seconds: 365 and 730 days ahead, 30 days back).
\<close>

record MockCardReader =
  card_inserted :: bool
  reader_current_card :: "Card option"
  card_info :: "string \<rightharpoonup> (string \<times> int \<times> string)"
  clock :: int

definition MockCardReader_init :: "int \<Rightarrow> MockCardReader" where
  "MockCardReader_init t0 =
     \<lparr>card_inserted = False, reader_current_card = None,
      card_info = [''1234567890123456'' \<mapsto> (''John Doe'', t0 + 31536000, ''DEBIT''),
                   ''2345678901234567'' \<mapsto> (''Jane Smith'', t0 + 63072000, ''CREDIT''),
                   ''3456789012345678'' \<mapsto> (''Invalid User'', t0 - 2592000, ''DEBIT'')],
      clock = t0\<rparr>"

definition mock_read_card :: "string \<Rightarrow> MockCardReader \<Rightarrow> (exn + Card) \<times> MockCardReader" where
  "mock_read_card number r =
     (if number = [] then (Inl (InvalidCardException ''No card number provided''), r)
      else case card_info r number of
        None \<Rightarrow> (Inl (InvalidCardException ''Card not recognized''), r)
      | Some (holder, expiry, ctype) \<Rightarrow>
          (case Card_init number holder expiry ctype True (clock r) of
             Inl (ValueError m) \<Rightarrow> (Inl (InvalidCardException (''Error reading card: '' @ m)), r)
           | Inl e \<Rightarrow> (Inl e, r)
           | Inr crd \<Rightarrow>
               if is_expired crd (clock r) then (Inl (InvalidCardException ''Card is expired''), r)
               else (Inr crd, r\<lparr>card_inserted := True, reader_current_card := Some crd\<rparr>)))"

definition mock_eject_card :: "MockCardReader \<Rightarrow> (exn + bool) \<times> MockCardReader" where
  "mock_eject_card r = (Inr True, r\<lparr>card_inserted := False, reader_current_card := None\<rparr>)"

definition mock_is_card_inserted :: "MockCardReader \<Rightarrow> (exn + bool) \<times> MockCardReader" where
  "mock_is_card_inserted r = (Inr (card_inserted r), r)"

definition MockCardReader_impl :: "MockCardReader CardReader" where
  "MockCardReader_impl =
     \<lparr>read_card = mock_read_card, eject_card = mock_eject_card,
      is_card_inserted = mock_is_card_inserted\<rparr>"

subsection \<open>A runtime for the scenarios\<close>

text \<open>
  A deterministic stand-in for \<open>uuid.uuid4()\<close> and \<open>datetime.now()\<close>: a counter that yields
  a fresh identifier and a later instant at each call.
\<close>

definition counter_uuid4 :: "nat \<Rightarrow> string \<times> nat" where
  "counter_uuid4 n = (''txn-'' @ replicate n CHR ''i'', Suc n)"

definition counter_now :: "nat \<Rightarrow> int \<times> nat" where
  "counter_now n = (int n, Suc n)"

definition counter_runtime :: "nat Runtime" where
  "counter_runtime = \<lparr>uuid4 = counter_uuid4, now = counter_now\<rparr>"

definition mock_env :: "(MockBankService, MockCashDispenser, MockCardReader, nat) Implementations" where
  "mock_env = \<lparr>bank_impl = MockBankService_impl, dispenser_impl = MockCashDispenser_impl,
               reader_impl = MockCardReader_impl, runtime_impl = counter_runtime\<rparr>"

definition jammed_env :: "(MockBankService, MockCashDispenser, MockCardReader, nat) Implementations" where
  "jammed_env = \<lparr>bank_impl = MockBankService_impl, dispenser_impl = JammedCashDispenser_impl,
                 reader_impl = MockCardReader_impl, runtime_impl = counter_runtime\<rparr>"

section \<open>The controller (atm\_controller.py)\<close>

datatype ATMState = IDLE | CARD_INSERTED | PIN_VERIFIED | ACCOUNT_SELECTED

text \<open>
  One entry per collaborator method the controller invokes, with the arguments and with what
  the collaborator answered.  The controller appends an entry at each invocation, so the
  list tells which collaborators were contacted, in which order.
\<close>

datatype call =
    Bank_validate_card string "exn + bool"
  | Bank_verify_pin string string "exn + bool"
  | Bank_get_accounts string "exn + Account list"
  | Bank_get_account string "exn + Account option"
  | Bank_get_balance string "exn + int"
  | Bank_deposit string int "exn + int"
  | Bank_withdraw string int "exn + int"
  | Reader_read_card string "exn + Card"
  | Reader_eject_card "exn + bool"
  | Dispenser_has_sufficient_cash int "exn + bool"
  | Dispenser_dispense_cash int "exn + bool"

fun call_name :: "call \<Rightarrow> string" where
  "call_name (Bank_validate_card n r) = ''validate_card''"
| "call_name (Bank_verify_pin n p r) = ''verify_pin''"
| "call_name (Bank_get_accounts n r) = ''get_accounts''"
| "call_name (Bank_get_account n r) = ''get_account''"
| "call_name (Bank_get_balance n r) = ''get_balance''"
| "call_name (Bank_deposit n a r) = ''deposit''"
| "call_name (Bank_withdraw n a r) = ''withdraw''"
| "call_name (Reader_read_card n r) = ''read_card''"
| "call_name (Reader_eject_card r) = ''eject_card''"
| "call_name (Dispenser_has_sufficient_cash a r) = ''has_sufficient_cash''"
| "call_name (Dispenser_dispense_cash a r) = ''dispense_cash''"

text \<open>
  The fields of \<open>ATMController\<close>: the three collaborator objects (their states), the four
  session fields, and, beside them, the state of the runtime and the record of collaborator
  invocations.
\<close>

record ('b, 'd, 'r, 'e) ATMController =
  bank_service :: 'b
  cash_dispenser :: 'd
  card_reader :: 'r
  state :: ATMState
  current_card :: "Card option"
  current_account :: "Account option"
  transaction_history :: "Transaction list"
  runtime_state :: 'e
  calls :: "call list"

type_synonym ('b, 'd, 'r, 'e, 'a) controller_op =
  "('b, 'd, 'r, 'e) ATMController \<Rightarrow> (exn + 'a) \<times> ('b, 'd, 'r, 'e) ATMController"

definition ATMController_init :: "'b \<Rightarrow> 'd \<Rightarrow> 'r \<Rightarrow> 'e \<Rightarrow> ('b, 'd, 'r, 'e) ATMController" where
  "ATMController_init b d r e =
     \<lparr>bank_service = b, cash_dispenser = d, card_reader = r, state = IDLE,
      current_card = None, current_account = None, transaction_history = [],
      runtime_state = e, calls = []\<rparr>"

subsection \<open>Invoking the collaborators\<close>

definition call_validate_card ::
  "('b, 'd, 'r, 'e) Implementations \<Rightarrow> string \<Rightarrow> ('b, 'd, 'r, 'e, bool) controller_op" where
  "call_validate_card env n c =
     (case validate_card (bank_impl env) n (bank_service c) of
        (r, b') \<Rightarrow> (r, c\<lparr>bank_service := b', calls := calls c @ [Bank_validate_card n r]\<rparr>))"

definition call_verify_pin ::
  "('b, 'd, 'r, 'e) Implementations \<Rightarrow> string \<Rightarrow> string \<Rightarrow> ('b, 'd, 'r, 'e, bool) controller_op" where
  "call_verify_pin env n pin c =
     (case verify_pin (bank_impl env) n pin (bank_service c) of
        (r, b') \<Rightarrow> (r, c\<lparr>bank_service := b', calls := calls c @ [Bank_verify_pin n pin r]\<rparr>))"

definition call_get_accounts ::
  "('b, 'd, 'r, 'e) Implementations \<Rightarrow> string \<Rightarrow> ('b, 'd, 'r, 'e, Account list) controller_op" where
  "call_get_accounts env n c =
     (case BankService.get_accounts (bank_impl env) n (bank_service c) of
        (r, b') \<Rightarrow> (r, c\<lparr>bank_service := b', calls := calls c @ [Bank_get_accounts n r]\<rparr>))"

definition call_get_account ::
  "('b, 'd, 'r, 'e) Implementations \<Rightarrow> string \<Rightarrow> ('b, 'd, 'r, 'e, Account option) controller_op" where
  "call_get_account env n c =
     (case get_account (bank_impl env) n (bank_service c) of
        (r, b') \<Rightarrow> (r, c\<lparr>bank_service := b', calls := calls c @ [Bank_get_account n r]\<rparr>))"

definition call_get_balance ::
  "('b, 'd, 'r, 'e) Implementations \<Rightarrow> string \<Rightarrow> ('b, 'd, 'r, 'e, int) controller_op" where
  "call_get_balance env n c =
     (case BankService.get_balance (bank_impl env) n (bank_service c) of
        (r, b') \<Rightarrow> (r, c\<lparr>bank_service := b', calls := calls c @ [Bank_get_balance n r]\<rparr>))"

definition call_deposit ::
  "('b, 'd, 'r, 'e) Implementations \<Rightarrow> string \<Rightarrow> int \<Rightarrow> ('b, 'd, 'r, 'e, int) controller_op" where
  "call_deposit env n amt c =
     (case BankService.deposit (bank_impl env) n amt (bank_service c) of
        (r, b') \<Rightarrow> (r, c\<lparr>bank_service := b', calls := calls c @ [Bank_deposit n amt r]\<rparr>))"

definition call_withdraw ::
  "('b, 'd, 'r, 'e) Implementations \<Rightarrow> string \<Rightarrow> int \<Rightarrow> ('b, 'd, 'r, 'e, int) controller_op" where
  "call_withdraw env n amt c =
     (case BankService.withdraw (bank_impl env) n amt (bank_service c) of
        (r, b') \<Rightarrow> (r, c\<lparr>bank_service := b', calls := calls c @ [Bank_withdraw n amt r]\<rparr>))"

definition call_read_card ::
  "('b, 'd, 'r, 'e) Implementations \<Rightarrow> string \<Rightarrow> ('b, 'd, 'r, 'e, Card) controller_op" where
  "call_read_card env n c =
     (case read_card (reader_impl env) n (card_reader c) of
        (r, r') \<Rightarrow> (r, c\<lparr>card_reader := r', calls := calls c @ [Reader_read_card n r]\<rparr>))"

definition call_eject_card ::
  "('b, 'd, 'r, 'e) Implementations \<Rightarrow> ('b, 'd, 'r, 'e, bool) controller_op" where
  "call_eject_card env c =
     (case CardReader.eject_card (reader_impl env) (card_reader c) of
        (r, r') \<Rightarrow> (r, c\<lparr>card_reader := r', calls := calls c @ [Reader_eject_card r]\<rparr>))"

definition call_has_sufficient_cash ::
  "('b, 'd, 'r, 'e) Implementations \<Rightarrow> int \<Rightarrow> ('b, 'd, 'r, 'e, bool) controller_op" where
  "call_has_sufficient_cash env amt c =
     (case has_sufficient_cash (dispenser_impl env) amt (cash_dispenser c) of
        (r, d') \<Rightarrow>
          (r, c\<lparr>cash_dispenser := d', calls := calls c @ [Dispenser_has_sufficient_cash amt r]\<rparr>))"

definition call_dispense_cash ::
  "('b, 'd, 'r, 'e) Implementations \<Rightarrow> int \<Rightarrow> ('b, 'd, 'r, 'e, bool) controller_op" where
  "call_dispense_cash env amt c =
     (case dispense_cash (dispenser_impl env) amt (cash_dispenser c) of
        (r, d') \<Rightarrow>
          (r, c\<lparr>cash_dispenser := d', calls := calls c @ [Dispenser_dispense_cash amt r]\<rparr>))"

text \<open>The constructor call \<open>Transaction(...)\<close>: \<open>__post_init__\<close> draws the identifier, then
  the timestamp.\<close>

definition new_Transaction ::
  "('b, 'd, 'r, 'e) Implementations \<Rightarrow> TransactionType \<Rightarrow> int \<Rightarrow> string \<Rightarrow> int \<Rightarrow>
   ('b, 'd, 'r, 'e) ATMController \<Rightarrow> Transaction \<times> ('b, 'd, 'r, 'e) ATMController" where
  "new_Transaction env ty amt number bal c =
     (case uuid4 (runtime_impl env) (runtime_state c) of
        (tid, e1) \<Rightarrow>
          (case now (runtime_impl env) e1 of
             (ts, e2) \<Rightarrow>
               (\<lparr>transaction_type = ty, amount = amt, Transaction.account_number = number,
                 balance_after = bal, transaction_id = tid, timestamp = ts\<rparr>,
                c\<lparr>runtime_state := e2\<rparr>)))"

subsection \<open>The methods of ATMController\<close>

definition get_state :: "('b, 'd, 'r, 'e) ATMController \<Rightarrow> ATMState" where
  "get_state c = state c"

definition reset_session :: "('b, 'd, 'r, 'e) ATMController \<Rightarrow> ('b, 'd, 'r, 'e) ATMController" where
  "reset_session c =
     c\<lparr>state := IDLE, current_card := None, current_account := None,
       transaction_history := []\<rparr>"

text \<open>\<open>insert_card\<close>: the handler \<open>except Exception\<close> resets the session on every exception
  raised inside the \<open>try\<close> block and raises it again.\<close>

definition insert_card ::
  "('b, 'd, 'r, 'e) Implementations \<Rightarrow> string \<Rightarrow> ('b, 'd, 'r, 'e, bool) controller_op" where
  "insert_card env number c =
     (if state c \<noteq> IDLE then (Inl (ATMException ''ATM is not ready to accept a card''), c)
      else case call_validate_card env number c of
        (Inl e, c1) \<Rightarrow> (Inl e, reset_session c1)
      | (Inr valid, c1) \<Rightarrow>
          if \<not> valid then (Inl (InvalidCardException ''Invalid card''), reset_session c1)
          else (case call_read_card env number c1 of
                  (Inl e, c2) \<Rightarrow> (Inl e, reset_session c2)
                | (Inr crd, c2) \<Rightarrow>
                    (Inr True, c2\<lparr>current_card := Some crd, state := CARD_INSERTED\<rparr>)))"

text \<open>\<open>enter_pin\<close>: only \<open>InvalidPinException\<close> is caught; any other exception of the bank
  propagates without a reset.\<close>

definition enter_pin ::
  "('b, 'd, 'r, 'e) Implementations \<Rightarrow> string \<Rightarrow> ('b, 'd, 'r, 'e, bool) controller_op" where
  "enter_pin env pin c =
     (if state c \<noteq> CARD_INSERTED
      then (Inl (ATMException ''No card inserted or PIN already verified''), c)
      else case current_card c of
        None \<Rightarrow> (Inl (ATMException ''No card information available''), c)
      | Some crd \<Rightarrow>
          (case call_verify_pin env (card_number crd) pin c of
             (Inl e, c1) \<Rightarrow>
               if is_InvalidPinException e then (Inl e, reset_session c1) else (Inl e, c1)
           | (Inr correct, c1) \<Rightarrow>
               if \<not> correct
               then (Inl (InvalidPinException ''Incorrect PIN''), reset_session c1)
               else (Inr True, c1\<lparr>state := PIN_VERIFIED\<rparr>)))"

definition get_accounts ::
  "('b, 'd, 'r, 'e) Implementations \<Rightarrow> ('b, 'd, 'r, 'e, Account list) controller_op" where
  "get_accounts env c =
     (if state c \<noteq> PIN_VERIFIED then (Inl (ATMException ''PIN not verified''), c)
      else case current_card c of
        None \<Rightarrow> (Inl (ATMException ''No card information available''), c)
      | Some crd \<Rightarrow> call_get_accounts env (card_number crd) c)"

text \<open>\<open>select_account\<close>: the bank is asked for the account, then for the card's accounts;
  the test is \<open>account_number not in [acc.account_number for acc in accounts]\<close>.\<close>

definition select_account ::
  "('b, 'd, 'r, 'e) Implementations \<Rightarrow> string \<Rightarrow> ('b, 'd, 'r, 'e, Account) controller_op" where
  "select_account env number c =
     (if state c \<noteq> PIN_VERIFIED then (Inl (ATMException ''PIN not verified''), c)
      else case current_card c of
        None \<Rightarrow> (Inl (ATMException ''No card information available''), c)
      | Some crd \<Rightarrow>
          (case call_get_account env number c of
             (Inl e, c1) \<Rightarrow> (Inl e, c1)
           | (Inr None, c1) \<Rightarrow>
               (Inl (AccountNotFoundException (''Account '' @ number @ '' not found'')), c1)
           | (Inr (Some account), c1) \<Rightarrow>
               (case call_get_accounts env (card_number crd) c1 of
                  (Inl e, c2) \<Rightarrow> (Inl e, c2)
                | (Inr accs, c2) \<Rightarrow>
                    if number \<notin> set (map Account.account_number accs)
                    then (Inl (AccountNotFoundException ''Account does not belong to this card''),
                          c2)
                    else (Inr account,
                          c2\<lparr>current_account := Some account, state := ACCOUNT_SELECTED\<rparr>))))"

definition get_balance ::
  "('b, 'd, 'r, 'e) Implementations \<Rightarrow> ('b, 'd, 'r, 'e, int) controller_op" where
  "get_balance env c =
     (if state c \<noteq> ACCOUNT_SELECTED then (Inl (ATMException ''No account selected''), c)
      else case current_account c of
        None \<Rightarrow> (Inl (ATMException ''No account information available''), c)
      | Some account \<Rightarrow>
          (case call_get_balance env (Account.account_number account) c of
             (Inl e, c1) \<Rightarrow> (Inl e, c1)
           | (Inr bal, c1) \<Rightarrow>
               (Inr bal, c1\<lparr>current_account := Some (account\<lparr>balance := bal\<rparr>)\<rparr>)))"

definition deposit ::
  "('b, 'd, 'r, 'e) Implementations \<Rightarrow> int \<Rightarrow> ('b, 'd, 'r, 'e, Transaction) controller_op" where
  "deposit env amt c =
     (if state c \<noteq> ACCOUNT_SELECTED then (Inl (ATMException ''No account selected''), c)
      else case current_account c of
        None \<Rightarrow> (Inl (ATMException ''No account information available''), c)
      | Some account \<Rightarrow>
          if amt \<le> 0 then (Inl (ATMException ''Deposit amount must be positive''), c)
          else (case call_deposit env (Account.account_number account) amt c of
                  (Inl e, c1) \<Rightarrow> (Inl e, c1)
                | (Inr new_balance, c1) \<Rightarrow>
                    (case new_Transaction env DEPOSIT amt (Account.account_number account)
                            new_balance c1 of
                       (txn, c2) \<Rightarrow>
                         (Inr txn,
                          c2\<lparr>transaction_history := transaction_history c2 @ [txn],
                             current_account := Some (account\<lparr>balance := new_balance\<rparr>)\<rparr>))))"

text \<open>
  \<open>withdraw\<close>.  The balance is read through the controller's own \<open>get_balance\<close>, which
  also stores it in the held account; afterwards \<open>self._current_account\<close> is read again
  (an attribute access on \<open>None\<close> would raise \<open>AttributeError\<close>).  The value returned by
  \<open>dispense_cash\<close> is not looked at.
\<close>

definition withdraw ::
  "('b, 'd, 'r, 'e) Implementations \<Rightarrow> int \<Rightarrow> ('b, 'd, 'r, 'e, Transaction) controller_op" where
  "withdraw env amt c =
     (if state c \<noteq> ACCOUNT_SELECTED then (Inl (ATMException ''No account selected''), c)
      else case current_account c of
        None \<Rightarrow> (Inl (ATMException ''No account information available''), c)
      | Some held \<Rightarrow>
          if amt \<le> 0 then (Inl (ATMException ''Withdrawal amount must be positive''), c)
          else (case call_has_sufficient_cash env amt c of
                  (Inl e, c1) \<Rightarrow> (Inl e, c1)
                | (Inr enough, c1) \<Rightarrow>
                    if \<not> enough
                    then (Inl (InsufficientCashException ''ATM has insufficient cash''), c1)
                    else (case get_balance env c1 of
                       (Inl e, c2) \<Rightarrow> (Inl e, c2)
                     | (Inr current_balance, c2) \<Rightarrow>
                         if current_balance < amt
                         then (Inl (InsufficientFundsException ''Insufficient funds in account''),
                               c2)
                         else (case current_account c2 of
                            None \<Rightarrow>
                              (Inl (AttributeError
                                 ''NoneType object has no attribute account_number''), c2)
                          | Some account \<Rightarrow>
                              (case call_withdraw env (Account.account_number account) amt c2 of
                                 (Inl e, c3) \<Rightarrow> (Inl e, c3)
                               | (Inr new_balance, c3) \<Rightarrow>
                                   (case call_dispense_cash env amt c3 of
                                      (Inl e, c4) \<Rightarrow> (Inl e, c4)
                                    | (Inr dispensed, c4) \<Rightarrow>
                                        (case new_Transaction env WITHDRAWAL amt
                                                (Account.account_number account) new_balance c4 of
                                           (txn, c5) \<Rightarrow>
                                             (Inr txn,
                                              c5\<lparr>transaction_history :=
                                                    transaction_history c5 @ [txn],
                                                 current_account :=
                                                    Some (account\<lparr>balance := new_balance\<rparr>)\<rparr>))))))))"

definition get_transaction_history :: "('b, 'd, 'r, 'e) ATMController \<Rightarrow> Transaction list" where
  "get_transaction_history c = transaction_history c"

text \<open>\<open>eject_card\<close>: the reader is asked to eject only when a card is held; what it returns
  is ignored, and an exception of the reader would leave the method before the reset.\<close>

definition eject_card ::
  "('b, 'd, 'r, 'e) Implementations \<Rightarrow> ('b, 'd, 'r, 'e, bool) controller_op" where
  "eject_card env c =
     (case current_card c of
        None \<Rightarrow> (Inr True, reset_session c)
      | Some crd \<Rightarrow>
          (case call_eject_card env c of
             (Inl e, c1) \<Rightarrow> (Inl e, c1)
           | (Inr ejected, c1) \<Rightarrow> (Inr True, reset_session c1)))"

subsection \<open>Operations, sessions and the transition table\<close>

text \<open>The customer intents as data, and what each method returns.\<close>

datatype operation =
    Insert_card string
  | Enter_pin string
  | Get_accounts
  | Select_account string
  | Get_balance
  | Deposit int
  | Withdraw int
  | Eject_card

datatype returned =
    Returned_bool bool
  | Returned_accounts "Account list"
  | Returned_account Account
  | Returned_int int
  | Returned_transaction Transaction

definition returning :: "('a \<Rightarrow> returned) \<Rightarrow> (exn + 'a) \<times> 's \<Rightarrow> (exn + returned) \<times> 's" where
  "returning f out = (case out of (Inl e, c) \<Rightarrow> (Inl e, c) | (Inr v, c) \<Rightarrow> (Inr (f v), c))"

fun run_op ::
  "('b, 'd, 'r, 'e) Implementations \<Rightarrow> operation \<Rightarrow> ('b, 'd, 'r, 'e, returned) controller_op" where
  "run_op env (Insert_card n) c = returning Returned_bool (insert_card env n c)"
| "run_op env (Enter_pin p) c = returning Returned_bool (enter_pin env p c)"
| "run_op env Get_accounts c = returning Returned_accounts (get_accounts env c)"
| "run_op env (Select_account n) c = returning Returned_account (select_account env n c)"
| "run_op env Get_balance c = returning Returned_int (get_balance env c)"
| "run_op env (Deposit a) c = returning Returned_transaction (deposit env a c)"
| "run_op env (Withdraw a) c = returning Returned_transaction (withdraw env a c)"
| "run_op env Eject_card c = returning Returned_bool (eject_card env c)"

text \<open>
  A run of operations on one controller.  For each operation the run keeps what it returned
  or raised and the collaborator invocations it made.
\<close>

fun run_ops ::
  "('b, 'd, 'r, 'e) Implementations \<Rightarrow> operation list \<Rightarrow> ('b, 'd, 'r, 'e) ATMController \<Rightarrow>
   (operation \<times> (exn + returned) \<times> call list) list \<times> ('b, 'd, 'r, 'e) ATMController" where
  "run_ops env [] c = ([], c)"
| "run_ops env (op # ops) c =
     (case run_op env op c of
        (r, c1) \<Rightarrow>
          (case run_ops env ops c1 of
             (outs, c2) \<Rightarrow> ((op, r, drop (length (calls c)) (calls c1)) # outs, c2)))"

text \<open>The transactions returned by the calls of a run, in call order.\<close>

fun returned_transactions ::
  "(operation \<times> (exn + returned) \<times> call list) list \<Rightarrow> Transaction list" where
  "returned_transactions [] = []"
| "returned_transactions ((op, Inr (Returned_transaction t), cs) # outs) =
     t # returned_transactions outs"
| "returned_transactions (out # outs) = returned_transactions outs"

text \<open>The ledger's answer to the credit or debit of a call: among the invocations \<open>cs\<close> of
  the call, the bank returned \<open>bal\<close> as the new balance of account \<open>number\<close>.\<close>

fun ledger_reported :: "operation \<Rightarrow> string \<Rightarrow> int \<Rightarrow> call list \<Rightarrow> bool" where
  "ledger_reported (Deposit a) number bal cs = (Bank_deposit number a (Inr bal) \<in> set cs)"
| "ledger_reported (Withdraw a) number bal cs = (Bank_withdraw number a (Inr bal) \<in> set cs)"
| "ledger_reported op number bal cs = False"

text \<open>A deposit or withdraw call of a run that returned.\<close>

fun money_call_succeeded :: "operation \<times> (exn + returned) \<times> call list \<Rightarrow> bool" where
  "money_call_succeeded (Deposit a, Inr v, cs) = True"
| "money_call_succeeded (Withdraw a, Inr v, cs) = True"
| "money_call_succeeded out = False"

text \<open>The transition table: the state from which each operation is permitted (the first
  test of each method).\<close>

fun permitted :: "operation \<Rightarrow> ATMState \<Rightarrow> bool" where
  "permitted (Insert_card n) s = (s = IDLE)"
| "permitted (Enter_pin p) s = (s = CARD_INSERTED)"
| "permitted Get_accounts s = (s = PIN_VERIFIED)"
| "permitted (Select_account n) s = (s = PIN_VERIFIED)"
| "permitted Get_balance s = (s = ACCOUNT_SELECTED)"
| "permitted (Deposit a) s = (s = ACCOUNT_SELECTED)"
| "permitted (Withdraw a) s = (s = ACCOUNT_SELECTED)"
| "permitted Eject_card s = True"

text \<open>The message of the \<open>ATMException\<close> each method raises when called from a state that
  does not permit it.\<close>

fun state_violation :: "operation \<Rightarrow> string" where
  "state_violation (Insert_card n) = ''ATM is not ready to accept a card''"
| "state_violation (Enter_pin p) = ''No card inserted or PIN already verified''"
| "state_violation Get_accounts = ''PIN not verified''"
| "state_violation (Select_account n) = ''PIN not verified''"
| "state_violation Get_balance = ''No account selected''"
| "state_violation (Deposit a) = ''No account selected''"
| "state_violation (Withdraw a) = ''No account selected''"
| "state_violation Eject_card = []"

text \<open>
  What holds of the session fields of every controller the methods can produce from a new
  one: a card is held exactly outside \<open>IDLE\<close>, an account exactly in \<open>ACCOUNT_SELECTED\<close>,
  and the transaction log is empty before an account is selected.
\<close>

definition session_inv :: "('b, 'd, 'r, 'e) ATMController \<Rightarrow> bool" where
  "session_inv c =
     ((current_card c = None) = (state c = IDLE)
      \<and> (current_account c \<noteq> None) = (state c = ACCOUNT_SELECTED)
      \<and> (state c = ACCOUNT_SELECTED \<or> transaction_history c = []))"

text \<open>The session part of a controller: state tag, held card, held account and log.\<close>

definition session ::
  "('b, 'd, 'r, 'e) ATMController \<Rightarrow> ATMState \<times> Card option \<times> Account option \<times> Transaction list" where
  "session c = (state c, current_card c, current_account c, transaction_history c)"

text \<open>What a call that returned or raised \<open>r\<close> adds to the transaction log.\<close>

definition appended :: "(exn + returned) \<Rightarrow> Transaction list" where
  "appended r = (case r of Inr (Returned_transaction t) \<Rightarrow> [t] | _ \<Rightarrow> [])"

subsection \<open>Controllers for the scenarios\<close>

text \<open>A new controller on the mocks, as the test fixture builds it (5000 units of cash),
  and the same controller brought to each later state by the methods themselves.\<close>

definition atm0 :: "(MockBankService, MockCashDispenser, MockCardReader, nat) ATMController" where
  "atm0 = ATMController_init MockBankService_init (MockCashDispenser_init 5000)
            (MockCardReader_init 0) 0"

definition atm_card :: "(MockBankService, MockCashDispenser, MockCardReader, nat) ATMController" where
  "atm_card = snd (insert_card mock_env ''1234567890123456'' atm0)"

definition atm_pin :: "(MockBankService, MockCashDispenser, MockCardReader, nat) ATMController" where
  "atm_pin = snd (enter_pin mock_env ''1234'' atm_card)"

definition atm_account :: "(MockBankService, MockCashDispenser, MockCardReader, nat) ATMController" where
  "atm_account = snd (select_account mock_env ''1001'' atm_pin)"


text \<open>The card and the accounts of the mocks that the scenarios meet.\<close>

definition john_card :: Card where
  "john_card = \<lparr>card_number = ''1234567890123456'', holder_name = ''John Doe'',
                 expiry_date = 31536000, card_type = ''DEBIT'', is_active = True\<rparr>"

definition checking_1001 :: Account where
  "checking_1001 = \<lparr>account_number = ''1001'', account_type = CHECKING, balance = 1000,
                     account_name = ''Primary Checking'', is_active = True,
                     daily_withdrawal_limit = Some 1000\<rparr>"

definition savings_1002 :: Account where
  "savings_1002 = \<lparr>account_number = ''1002'', account_type = SAVINGS, balance = 5000,
                    account_name = ''Primary Savings'', is_active = True,
                    daily_withdrawal_limit = Some 500\<rparr>"

definition checking_2001 :: Account where
  "checking_2001 = \<lparr>account_number = ''2001'', account_type = CHECKING, balance = 750,
                     account_name = ''Business Checking'', is_active = True,
                     daily_withdrawal_limit = Some 1000\<rparr>"

section \<open>Properties of the data model\<close>

lemma can_withdraw_nonzero_limit:
  "daily_withdrawal_limit a = Some l \<Longrightarrow> l \<noteq> 0 \<Longrightarrow>
   can_withdraw a amt \<longleftrightarrow>
     (is_active a \<and> 0 < amt \<and> amt \<le> l \<and> (account_type a \<noteq> CREDIT \<longrightarrow> amt \<le> balance a))"
  by (auto simp: can_withdraw_def truthy_def)

text \<open>
  Claim C8.  The claim reads: \<open>can_withdraw(amount)\<close> is true iff the account is active, the
  amount is positive, the amount does not exceed the daily withdrawal limit and, for
  non-CREDIT accounts, the balance covers the amount.  The source guards the limit test with
  the truthiness of the limit, so a limit of \<open>0\<close> is skipped like a missing one: the
  constructed account below has limit \<open>0\<close> and balance \<open>1000\<close>, and \<open>can_withdraw\<close>
  accepts the amount \<open>500\<close> although it exceeds the limit.
\<close>

theorem can_withdraw_zero_limit_accepts:
  "Account_init ''1001'' CHECKING 1000 ''Primary Checking'' True (Some 0)
     = Inr \<lparr>account_number = ''1001'', account_type = CHECKING, balance = 1000,
            account_name = ''Primary Checking'', is_active = True,
            daily_withdrawal_limit = Some 0\<rparr>
   \<and> can_withdraw \<lparr>account_number = ''1001'', account_type = CHECKING, balance = 1000,
            account_name = ''Primary Checking'', is_active = True,
            daily_withdrawal_limit = Some 0\<rparr> 500 = True
   \<and> (500::int) > 0"
  by (simp add: Account_init_def can_withdraw_def truthy_def)

section \<open>Properties of the controller\<close>

subsection \<open>The collaborator invocations, unfolded\<close>

lemma call_validate_card_eq:
  "call_validate_card env n c =
     (fst (validate_card (bank_impl env) n (bank_service c)),
      c\<lparr>bank_service := snd (validate_card (bank_impl env) n (bank_service c)),
        calls := calls c @ [Bank_validate_card n (fst (validate_card (bank_impl env) n (bank_service c)))]\<rparr>)"
  by (simp add: call_validate_card_def split: prod.splits)

lemma call_verify_pin_eq:
  "call_verify_pin env n p c =
     (fst (verify_pin (bank_impl env) n p (bank_service c)),
      c\<lparr>bank_service := snd (verify_pin (bank_impl env) n p (bank_service c)),
        calls := calls c @ [Bank_verify_pin n p (fst (verify_pin (bank_impl env) n p (bank_service c)))]\<rparr>)"
  by (simp add: call_verify_pin_def split: prod.splits)

lemma call_get_accounts_eq:
  "call_get_accounts env n c =
     (fst (BankService.get_accounts (bank_impl env) n (bank_service c)),
      c\<lparr>bank_service := snd (BankService.get_accounts (bank_impl env) n (bank_service c)),
        calls := calls c @ [Bank_get_accounts n (fst (BankService.get_accounts (bank_impl env) n (bank_service c)))]\<rparr>)"
  by (simp add: call_get_accounts_def split: prod.splits)

lemma call_get_account_eq:
  "call_get_account env n c =
     (fst (get_account (bank_impl env) n (bank_service c)),
      c\<lparr>bank_service := snd (get_account (bank_impl env) n (bank_service c)),
        calls := calls c @ [Bank_get_account n (fst (get_account (bank_impl env) n (bank_service c)))]\<rparr>)"
  by (simp add: call_get_account_def split: prod.splits)

lemma call_get_balance_eq:
  "call_get_balance env n c =
     (fst (BankService.get_balance (bank_impl env) n (bank_service c)),
      c\<lparr>bank_service := snd (BankService.get_balance (bank_impl env) n (bank_service c)),
        calls := calls c @ [Bank_get_balance n (fst (BankService.get_balance (bank_impl env) n (bank_service c)))]\<rparr>)"
  by (simp add: call_get_balance_def split: prod.splits)

lemma call_deposit_eq:
  "call_deposit env n a c =
     (fst (BankService.deposit (bank_impl env) n a (bank_service c)),
      c\<lparr>bank_service := snd (BankService.deposit (bank_impl env) n a (bank_service c)),
        calls := calls c @ [Bank_deposit n a (fst (BankService.deposit (bank_impl env) n a (bank_service c)))]\<rparr>)"
  by (simp add: call_deposit_def split: prod.splits)

lemma call_withdraw_eq:
  "call_withdraw env n a c =
     (fst (BankService.withdraw (bank_impl env) n a (bank_service c)),
      c\<lparr>bank_service := snd (BankService.withdraw (bank_impl env) n a (bank_service c)),
        calls := calls c @ [Bank_withdraw n a (fst (BankService.withdraw (bank_impl env) n a (bank_service c)))]\<rparr>)"
  by (simp add: call_withdraw_def split: prod.splits)

lemma call_read_card_eq:
  "call_read_card env n c =
     (fst (read_card (reader_impl env) n (card_reader c)),
      c\<lparr>card_reader := snd (read_card (reader_impl env) n (card_reader c)),
        calls := calls c @ [Reader_read_card n (fst (read_card (reader_impl env) n (card_reader c)))]\<rparr>)"
  by (simp add: call_read_card_def split: prod.splits)

lemma call_eject_card_eq:
  "call_eject_card env c =
     (fst (CardReader.eject_card (reader_impl env) (card_reader c)),
      c\<lparr>card_reader := snd (CardReader.eject_card (reader_impl env) (card_reader c)),
        calls := calls c @ [Reader_eject_card (fst (CardReader.eject_card (reader_impl env) (card_reader c)))]\<rparr>)"
  by (simp add: call_eject_card_def split: prod.splits)

lemma call_has_sufficient_cash_eq:
  "call_has_sufficient_cash env a c =
     (fst (has_sufficient_cash (dispenser_impl env) a (cash_dispenser c)),
      c\<lparr>cash_dispenser := snd (has_sufficient_cash (dispenser_impl env) a (cash_dispenser c)),
        calls := calls c @ [Dispenser_has_sufficient_cash a (fst (has_sufficient_cash (dispenser_impl env) a (cash_dispenser c)))]\<rparr>)"
  by (simp add: call_has_sufficient_cash_def split: prod.splits)

lemma call_dispense_cash_eq:
  "call_dispense_cash env a c =
     (fst (dispense_cash (dispenser_impl env) a (cash_dispenser c)),
      c\<lparr>cash_dispenser := snd (dispense_cash (dispenser_impl env) a (cash_dispenser c)),
        calls := calls c @ [Dispenser_dispense_cash a (fst (dispense_cash (dispenser_impl env) a (cash_dispenser c)))]\<rparr>)"
  by (simp add: call_dispense_cash_def split: prod.splits)

lemma new_Transaction_eq:
  "new_Transaction env ty a n bal c =
     (\<lparr>transaction_type = ty, amount = a, Transaction.account_number = n, balance_after = bal,
       transaction_id = fst (uuid4 (runtime_impl env) (runtime_state c)),
       timestamp = fst (now (runtime_impl env) (snd (uuid4 (runtime_impl env) (runtime_state c))))\<rparr>,
      c\<lparr>runtime_state := snd (now (runtime_impl env) (snd (uuid4 (runtime_impl env) (runtime_state c))))\<rparr>)"
  by (simp add: new_Transaction_def split: prod.splits)

lemmas call_eqs =
  call_validate_card_eq call_verify_pin_eq call_get_accounts_eq call_get_account_eq
  call_get_balance_eq call_deposit_eq call_withdraw_eq call_read_card_eq
  call_eject_card_eq call_has_sufficient_cash_eq call_dispense_cash_eq new_Transaction_eq

lemmas controller_defs =
  insert_card_def enter_pin_def get_accounts_def select_account_def get_balance_def
  deposit_def withdraw_def eject_card_def reset_session_def returning_def

subsection \<open>The session invariant\<close>

lemma session_inv_init: "session_inv (ATMController_init b d r e)"
  by (simp add: session_inv_def ATMController_init_def)

lemma session_inv_insert_card: "session_inv c \<Longrightarrow> session_inv (snd (insert_card env n c))"
  by (auto simp: session_inv_def insert_card_def reset_session_def call_validate_card_eq call_read_card_eq
      split: sum.splits option.splits if_splits)

lemma session_inv_enter_pin: "session_inv c \<Longrightarrow> session_inv (snd (enter_pin env p c))"
  by (auto simp: session_inv_def enter_pin_def reset_session_def call_verify_pin_eq
      split: sum.splits option.splits if_splits)

lemma session_inv_get_accounts: "session_inv c \<Longrightarrow> session_inv (snd (get_accounts env c))"
  by (auto simp: session_inv_def get_accounts_def call_get_accounts_eq
      split: sum.splits option.splits if_splits)

lemma session_inv_select_account: "session_inv c \<Longrightarrow> session_inv (snd (select_account env n c))"
  by (auto simp: session_inv_def select_account_def call_get_accounts_eq call_get_account_eq
      split: sum.splits option.splits if_splits)

lemma session_inv_get_balance: "session_inv c \<Longrightarrow> session_inv (snd (get_balance env c))"
  by (auto simp: session_inv_def get_balance_def call_get_balance_eq
      split: sum.splits option.splits if_splits)

lemma session_inv_deposit: "session_inv c \<Longrightarrow> session_inv (snd (deposit env a c))"
  by (auto simp: session_inv_def deposit_def call_deposit_eq new_Transaction_eq
      split: sum.splits option.splits if_splits)

lemma session_inv_withdraw: "session_inv c \<Longrightarrow> session_inv (snd (withdraw env a c))"
  by (auto simp: session_inv_def withdraw_def get_balance_def call_get_balance_eq
        call_has_sufficient_cash_eq call_withdraw_eq call_dispense_cash_eq new_Transaction_eq
      split: sum.splits option.splits if_splits)

lemma session_inv_eject_card: "session_inv c \<Longrightarrow> session_inv (snd (eject_card env c))"
  by (auto simp: session_inv_def eject_card_def reset_session_def call_eject_card_eq
      split: sum.splits option.splits if_splits)

lemma snd_returning: "snd (returning f out) = snd out"
  by (auto simp: returning_def split: prod.splits sum.splits)

lemma session_inv_run_op: "session_inv c \<Longrightarrow> session_inv (snd (run_op env op c))"
  by (cases op)
     (simp_all add: snd_returning session_inv_insert_card session_inv_enter_pin
        session_inv_get_accounts session_inv_select_account session_inv_get_balance
        session_inv_deposit session_inv_withdraw session_inv_eject_card)

lemma session_inv_run_ops: "session_inv c \<Longrightarrow> session_inv (snd (run_ops env ops c))"
proof (induction ops arbitrary: c)
  case Nil
  then show ?case by simp
next
  case (Cons op ops)
  from Cons.prems have "session_inv (snd (run_op env op c))" by (rule session_inv_run_op)
  then have "session_inv (snd (run_ops env ops (snd (run_op env op c))))" by (rule Cons.IH)
  then show ?case by (auto split: prod.splits)
qed

lemma log_insert_card:
  "session_inv c \<Longrightarrow> transaction_history (snd (insert_card env n c)) = transaction_history c"
  by (auto simp: session_inv_def insert_card_def reset_session_def call_validate_card_eq call_read_card_eq
      split: sum.splits option.splits if_splits)

lemma log_enter_pin:
  "session_inv c \<Longrightarrow> transaction_history (snd (enter_pin env p c)) = transaction_history c"
  by (auto simp: session_inv_def enter_pin_def reset_session_def call_verify_pin_eq
      split: sum.splits option.splits if_splits)

lemma log_get_accounts:
  "transaction_history (snd (get_accounts env c)) = transaction_history c"
  by (auto simp: get_accounts_def call_get_accounts_eq
      split: sum.splits option.splits if_splits)

lemma log_select_account:
  "transaction_history (snd (select_account env n c)) = transaction_history c"
  by (auto simp: select_account_def call_get_accounts_eq call_get_account_eq
      split: sum.splits option.splits if_splits)

lemma log_get_balance:
  "transaction_history (snd (get_balance env c)) = transaction_history c"
  by (auto simp: get_balance_def call_get_balance_eq
      split: sum.splits option.splits if_splits)

lemma log_deposit:
  "transaction_history (snd (deposit env a c))
     = transaction_history c @ (case fst (deposit env a c) of Inl e \<Rightarrow> [] | Inr t \<Rightarrow> [t])"
  by (auto simp: deposit_def call_deposit_eq new_Transaction_eq
      split: sum.splits option.splits if_splits)

lemma log_withdraw:
  "transaction_history (snd (withdraw env a c))
     = transaction_history c @ (case fst (withdraw env a c) of Inl e \<Rightarrow> [] | Inr t \<Rightarrow> [t])"
  by (auto simp: withdraw_def get_balance_def call_get_balance_eq
        call_has_sufficient_cash_eq call_withdraw_eq call_dispense_cash_eq new_Transaction_eq
      split: sum.splits option.splits if_splits)

lemma fst_returning:
  "fst (returning f out) = (case fst out of Inl e \<Rightarrow> Inl e | Inr v \<Rightarrow> Inr (f v))"
  by (auto simp: returning_def split: prod.splits sum.splits)

lemma log_run_op:
  "session_inv c \<Longrightarrow> op \<noteq> Eject_card \<Longrightarrow>
   transaction_history (snd (run_op env op c))
     = transaction_history c @ appended (fst (run_op env op c))"
  by (cases op)
     (auto simp: snd_returning fst_returning appended_def log_insert_card log_enter_pin
        log_get_accounts log_select_account log_get_balance log_deposit log_withdraw
      split: sum.splits)

lemma deposit_reported:
  "fst (deposit env a c) = Inr t \<Longrightarrow>
   Bank_deposit (Transaction.account_number t) a (Inr (balance_after t))
     \<in> set (drop (length (calls c)) (calls (snd (deposit env a c))))"
  by (auto simp: deposit_def call_deposit_eq new_Transaction_eq
      split: sum.splits option.splits if_splits)

lemma withdraw_reported:
  "fst (withdraw env a c) = Inr t \<Longrightarrow>
   Bank_withdraw (Transaction.account_number t) a (Inr (balance_after t))
     \<in> set (drop (length (calls c)) (calls (snd (withdraw env a c))))"
  by (auto simp: withdraw_def get_balance_def call_get_balance_eq
        call_has_sufficient_cash_eq call_withdraw_eq call_dispense_cash_eq new_Transaction_eq
      split: sum.splits option.splits if_splits)

lemma reported_run_op:
  "fst (run_op env op c) = Inr (Returned_transaction t) \<Longrightarrow>
   ledger_reported op (Transaction.account_number t) (balance_after t)
     (drop (length (calls c)) (calls (snd (run_op env op c))))"
  by (cases op)
     (auto simp: snd_returning fst_returning deposit_reported withdraw_reported split: sum.splits)

lemma succeeded_run_op:
  "money_call_succeeded (op, fst (run_op env op c), cs)
     \<longleftrightarrow> (\<exists>t. fst (run_op env op c) = Inr (Returned_transaction t))"
  by (cases op) (auto simp: fst_returning split: sum.splits)

lemma appended_length:
  "length (appended (fst (run_op env op c)))
     = (if money_call_succeeded (op, fst (run_op env op c), cs) then 1 else 0)"
  by (auto simp: succeeded_run_op appended_def split: sum.splits returned.splits)



subsection \<open>The scenarios, evaluated\<close>

lemmas impl_defs =
  mock_env_def jammed_env_def MockBankService_impl_def MockCashDispenser_impl_def
  JammedCashDispenser_impl_def MockCardReader_impl_def counter_runtime_def

lemma mock_bank_facts:
  "mock_validate_card ''1234567890123456'' MockBankService_init = (Inr True, MockBankService_init)"
  "mock_verify_pin ''1234567890123456'' ''1234'' MockBankService_init = (Inr True, MockBankService_init)"
  "mock_verify_pin ''1234567890123456'' ''0000'' MockBankService_init = (Inr False, MockBankService_init)"
  "mock_get_account ''1001'' MockBankService_init = (Inr (Some checking_1001), MockBankService_init)"
  "mock_get_accounts ''1234567890123456'' MockBankService_init
     = (Inr [checking_1001, savings_1002], MockBankService_init)"
  "mock_get_balance ''1001'' MockBankService_init = (Inr 1000, MockBankService_init)"
  "mock_get_account ''2001'' MockBankService_init = (Inr (Some checking_2001), MockBankService_init)"
  by (simp_all add: mock_validate_card_def mock_verify_pin_def mock_get_account_def
        mock_get_accounts_def mock_get_balance_def MockBankService_init_def
        checking_1001_def savings_1002_def checking_2001_def)

lemma mock_reader_facts:
  "mock_read_card ''1234567890123456'' (MockCardReader_init 0)
     = (Inr john_card,
        (MockCardReader_init 0)\<lparr>card_inserted := True, reader_current_card := Some john_card\<rparr>)"
  by (simp add: mock_read_card_def MockCardReader_init_def Card_init_def is_expired_def john_card_def)

lemma atm_card_eq:
  "atm_card =
     \<lparr>bank_service = MockBankService_init, cash_dispenser = MockCashDispenser_init 5000,
      card_reader = (MockCardReader_init 0)\<lparr>card_inserted := True,
                                            reader_current_card := Some john_card\<rparr>,
      state = CARD_INSERTED, current_card = Some john_card, current_account = None,
      transaction_history = [], runtime_state = 0,
      calls = [Bank_validate_card ''1234567890123456'' (Inr True),
               Reader_read_card ''1234567890123456'' (Inr john_card)]\<rparr>"
  by (simp add: atm_card_def atm0_def ATMController_init_def insert_card_def
        call_validate_card_def call_read_card_def impl_defs mock_bank_facts mock_reader_facts)

lemma john_number: "card_number john_card = ''1234567890123456''"
  by (simp add: john_card_def)

lemma atm_pin_eq:
  "atm_pin =
     \<lparr>bank_service = MockBankService_init, cash_dispenser = MockCashDispenser_init 5000,
      card_reader = (MockCardReader_init 0)\<lparr>card_inserted := True,
                                            reader_current_card := Some john_card\<rparr>,
      state = PIN_VERIFIED, current_card = Some john_card, current_account = None,
      transaction_history = [], runtime_state = 0,
      calls = [Bank_validate_card ''1234567890123456'' (Inr True),
               Reader_read_card ''1234567890123456'' (Inr john_card),
               Bank_verify_pin ''1234567890123456'' ''1234'' (Inr True)]\<rparr>"
  by (simp add: atm_pin_def atm_card_eq enter_pin_def call_verify_pin_def impl_defs
        mock_bank_facts john_number)

lemma number_1001: "Account.account_number checking_1001 = ''1001''"
  "Account.account_number savings_1002 = ''1002''"
  "map Account.account_number [checking_1001, savings_1002] = [''1001'', ''1002'']"
  by (simp_all add: checking_1001_def savings_1002_def)

lemma atm_account_eq:
  "atm_account =
     \<lparr>bank_service = MockBankService_init, cash_dispenser = MockCashDispenser_init 5000,
      card_reader = (MockCardReader_init 0)\<lparr>card_inserted := True,
                                            reader_current_card := Some john_card\<rparr>,
      state = ACCOUNT_SELECTED, current_card = Some john_card,
      current_account = Some checking_1001,
      transaction_history = [], runtime_state = 0,
      calls = [Bank_validate_card ''1234567890123456'' (Inr True),
               Reader_read_card ''1234567890123456'' (Inr john_card),
               Bank_verify_pin ''1234567890123456'' ''1234'' (Inr True),
               Bank_get_account ''1001'' (Inr (Some checking_1001)),
               Bank_get_accounts ''1234567890123456'' (Inr [checking_1001, savings_1002])]\<rparr>"
  by (simp add: atm_account_def atm_pin_eq select_account_def call_get_account_def
        call_get_accounts_def impl_defs mock_bank_facts john_number number_1001)


lemma atm0_state: "state atm0 = IDLE"
  by (simp add: atm0_def ATMController_init_def)

lemma session_inv_atm_account: "session_inv atm_account"
  by (simp add: atm_account_eq session_inv_def)

lemma mock_dispenser_facts:
  "mock_has_sufficient_cash 6000 (MockCashDispenser_init 5000)
     = (Inr False, MockCashDispenser_init 5000)"
  "mock_has_sufficient_cash 1500 (MockCashDispenser_init 5000)
     = (Inr True, MockCashDispenser_init 5000)"
  "mock_has_sufficient_cash 200 (MockCashDispenser_init 5000)
     = (Inr True, MockCashDispenser_init 5000)"
  by (simp_all add: mock_has_sufficient_cash_def MockCashDispenser_init_def)

subsection \<open>State gating\<close>

text \<open>
  Claim C3.  Each of \<open>insert_card\<close>, \<open>enter_pin\<close>, \<open>get_accounts\<close>, \<open>select_account\<close>,
  \<open>get_balance\<close>, \<open>deposit\<close> and \<open>withdraw\<close>, invoked in a state from which the transition
  table does not permit it, fails with the generic state-violation error, which the source
  raises as the base class \<open>ATMException\<close>, and leaves the controller as it was: same state
  tag, card, account and transaction log, and no collaborator contacted.  (\<open>eject_card\<close> is
  permitted everywhere.)
\<close>

theorem state_gating:
  "\<not> permitted op (state c) \<Longrightarrow>
   run_op env op c = (Inl (ATMException (state_violation op)), c)"
  by (cases op) (simp_all add: controller_defs)

theorem state_gating_witness:
  "\<not> permitted (Enter_pin ''1234'') (state atm0)
   \<and> run_op mock_env (Enter_pin ''1234'') atm0
       = (Inl (ATMException ''No card inserted or PIN already verified''), atm0)"
proof -
  have h: "\<not> permitted (Enter_pin ''1234'') (state atm0)"
    by (simp add: atm0_state)
  show ?thesis
    using h state_gating [OF h, of mock_env] by simp
qed

subsection \<open>PIN entry\<close>

text \<open>
  Claim C4.  In state \<open>CARD_INSERTED\<close> with a held card, a PIN the bank reports as incorrect
  makes \<open>enter_pin\<close> fail with \<open>InvalidPinException\<close>, puts the controller in \<open>IDLE\<close> and
  clears the held card; a PIN the bank reports as correct makes it return true, puts the
  controller in \<open>PIN_VERIFIED\<close> and keeps the held card.
\<close>

theorem pin_reset:
  assumes "state c = CARD_INSERTED" and "current_card c = Some crd"
    and "verify_pin (bank_impl env) (card_number crd) pin (bank_service c) = (Inr correct, b')"
  shows "(\<not> correct \<longrightarrow>
            fst (enter_pin env pin c) = Inl (InvalidPinException ''Incorrect PIN'')
            \<and> state (snd (enter_pin env pin c)) = IDLE
            \<and> current_card (snd (enter_pin env pin c)) = None)
       \<and> (correct \<longrightarrow>
            fst (enter_pin env pin c) = Inr True
            \<and> state (snd (enter_pin env pin c)) = PIN_VERIFIED
            \<and> current_card (snd (enter_pin env pin c)) = Some crd)"
  using assms by (simp add: enter_pin_def call_verify_pin_eq reset_session_def)

theorem pin_reset_witness:
  "fst (enter_pin mock_env ''0000'' atm_card) = Inl (InvalidPinException ''Incorrect PIN'')
   \<and> state (snd (enter_pin mock_env ''0000'' atm_card)) = IDLE
   \<and> current_card (snd (enter_pin mock_env ''0000'' atm_card)) = None
   \<and> fst (enter_pin mock_env ''1234'' atm_card) = Inr True
   \<and> state (snd (enter_pin mock_env ''1234'' atm_card)) = PIN_VERIFIED
   \<and> current_card (snd (enter_pin mock_env ''1234'' atm_card)) = Some john_card"
proof -
  have s: "state atm_card = CARD_INSERTED" and k: "current_card atm_card = Some john_card"
    by (simp_all add: atm_card_eq)
  have wrong: "verify_pin (bank_impl mock_env) (card_number john_card) ''0000''
                 (bank_service atm_card) = (Inr False, MockBankService_init)"
    by (simp add: atm_card_eq impl_defs mock_bank_facts john_number)
  have right: "verify_pin (bank_impl mock_env) (card_number john_card) ''1234''
                 (bank_service atm_card) = (Inr True, MockBankService_init)"
    by (simp add: atm_card_eq impl_defs mock_bank_facts john_number)
  show ?thesis
    using pin_reset [OF s k wrong] pin_reset [OF s k right] by simp
qed

subsection \<open>Account selection\<close>

text \<open>
  Claim C5.  In state \<open>PIN_VERIFIED\<close>, when the bank knows the account number (it exists
  globally): if the number is not among the account numbers of the card's account list,
  fetched again from the bank after the account itself, \<open>select_account\<close> fails with
  \<open>AccountNotFoundException\<close>, stays in \<open>PIN_VERIFIED\<close> and holds no account; if it is
  among them, \<open>select_account\<close> returns the account, holds it and moves to
  \<open>ACCOUNT_SELECTED\<close>.  The two bank calls are the only collaborator invocations made.
\<close>

theorem ownership_enforced:
  assumes "session_inv c" and "state c = PIN_VERIFIED" and "current_card c = Some crd"
    and "get_account (bank_impl env) number (bank_service c) = (Inr (Some account), b1)"
    and "BankService.get_accounts (bank_impl env) (card_number crd) b1 = (Inr accs, b2)"
  shows "(number \<notin> set (map Account.account_number accs) \<longrightarrow>
            fst (select_account env number c)
              = Inl (AccountNotFoundException ''Account does not belong to this card'')
            \<and> state (snd (select_account env number c)) = PIN_VERIFIED
            \<and> current_account (snd (select_account env number c)) = None)
       \<and> (number \<in> set (map Account.account_number accs) \<longrightarrow>
            fst (select_account env number c) = Inr account
            \<and> state (snd (select_account env number c)) = ACCOUNT_SELECTED
            \<and> current_account (snd (select_account env number c)) = Some account)
       \<and> calls (snd (select_account env number c))
            = calls c @ [Bank_get_account number (Inr (Some account)),
                         Bank_get_accounts (card_number crd) (Inr accs)]"
  using assms
  by (simp add: select_account_def call_get_account_eq call_get_accounts_eq session_inv_def)

theorem ownership_enforced_witness:
  "fst (select_account mock_env ''2001'' atm_pin)
     = Inl (AccountNotFoundException ''Account does not belong to this card'')
   \<and> state (snd (select_account mock_env ''2001'' atm_pin)) = PIN_VERIFIED
   \<and> current_account (snd (select_account mock_env ''2001'' atm_pin)) = None
   \<and> fst (select_account mock_env ''1001'' atm_pin) = Inr checking_1001
   \<and> state (snd (select_account mock_env ''1001'' atm_pin)) = ACCOUNT_SELECTED
   \<and> current_account (snd (select_account mock_env ''1001'' atm_pin)) = Some checking_1001"
proof -
  have i: "session_inv atm_pin" and s: "state atm_pin = PIN_VERIFIED"
    and k: "current_card atm_pin = Some john_card"
    by (simp_all add: atm_pin_eq session_inv_def)
  have other: "get_account (bank_impl mock_env) ''2001'' (bank_service atm_pin)
                 = (Inr (Some checking_2001), MockBankService_init)"
    by (simp add: atm_pin_eq impl_defs mock_bank_facts)
  have own: "get_account (bank_impl mock_env) ''1001'' (bank_service atm_pin)
               = (Inr (Some checking_1001), MockBankService_init)"
    by (simp add: atm_pin_eq impl_defs mock_bank_facts)
  have list: "BankService.get_accounts (bank_impl mock_env) (card_number john_card)
                MockBankService_init = (Inr [checking_1001, savings_1002], MockBankService_init)"
    by (simp add: impl_defs mock_bank_facts john_number)
  show ?thesis
    using ownership_enforced [OF i s k other list] ownership_enforced [OF i s k own list]
    by (simp add: number_1001)
qed

subsection \<open>Ejecting the card\<close>

text \<open>
  Claim C7.  From every controller state \<open>eject_card\<close> returns true and leaves the
  controller in \<open>IDLE\<close> with no held card, no held account and an empty transaction log, and
  a second \<open>eject_card\<close> returns true again and changes nothing.  The card reader is taken
  to keep its contract: its own \<open>eject_card\<close>, asked only when a card is held, returns
  without raising.
\<close>

theorem eject_idempotent:
  assumes "current_card c \<noteq> None \<longrightarrow>
             (\<exists>ejected r'. CardReader.eject_card (reader_impl env) (card_reader c)
                              = (Inr ejected, r'))"
  shows "fst (eject_card env c) = Inr True
       \<and> session (snd (eject_card env c)) = (IDLE, None, None, [])
       \<and> eject_card env (snd (eject_card env c)) = (Inr True, snd (eject_card env c))"
  using assms
  by (cases "current_card c")
     (auto simp: eject_card_def call_eject_card_eq reset_session_def session_def)

theorem eject_idempotent_witness:
  "fst (eject_card mock_env atm_account) = Inr True
   \<and> session (snd (eject_card mock_env atm_account)) = (IDLE, None, None, [])
   \<and> eject_card mock_env (snd (eject_card mock_env atm_account))
       = (Inr True, snd (eject_card mock_env atm_account))"
proof -
  have h: "current_card atm_account \<noteq> None \<longrightarrow>
             (\<exists>ejected r'. CardReader.eject_card (reader_impl mock_env) (card_reader atm_account)
                              = (Inr ejected, r'))"
    by (auto simp: impl_defs mock_eject_card_def)
  show ?thesis
    by (rule eject_idempotent [OF h])
qed

subsection \<open>Non-positive amounts\<close>

text \<open>
  Claim C9.  In state \<open>ACCOUNT_SELECTED\<close>, \<open>deposit\<close> and \<open>withdraw\<close> of an amount that is
  zero or negative fail with the invalid-amount error, which the source raises as the base
  class \<open>ATMException\<close> with the message naming the amount, before any collaborator is
  contacted; the controller is left exactly as it was (no reset, no log entry, no change of
  the cached account).
\<close>

theorem invalid_amount_rejected:
  assumes "session_inv c" and "state c = ACCOUNT_SELECTED" and "amt \<le> 0"
  shows "deposit env amt c = (Inl (ATMException ''Deposit amount must be positive''), c)
       \<and> withdraw env amt c = (Inl (ATMException ''Withdrawal amount must be positive''), c)"
  using assms by (auto simp: deposit_def withdraw_def session_inv_def)

theorem invalid_amount_rejected_witness:
  "deposit mock_env (- 100) atm_account
     = (Inl (ATMException ''Deposit amount must be positive''), atm_account)
   \<and> withdraw mock_env (- 100) atm_account
     = (Inl (ATMException ''Withdrawal amount must be positive''), atm_account)"
proof -
  have s: "state atm_account = ACCOUNT_SELECTED"
    by (simp add: atm_account_eq)
  have a: "(- 100 :: int) \<le> 0"
    by simp
  show ?thesis
    by (rule invalid_amount_rejected [OF session_inv_atm_account s a])
qed


subsection \<open>Withdrawal\<close>

lemma withdraw_calls_in_order:
  "\<exists>new. calls (snd (withdraw env amt c)) = calls c @ new
      \<and> prefix (map call_name new)
           [''has_sufficient_cash'', ''get_balance'', ''withdraw'', ''dispense_cash'']"
  by (auto simp: withdraw_def get_balance_def call_has_sufficient_cash_eq call_get_balance_eq
        call_withdraw_eq call_dispense_cash_eq new_Transaction_eq
      split: sum.splits option.splits)

lemma mock_withdraw_200:
  "fst (mock_withdraw ''1001'' 200 MockBankService_init) = Inr 800"
  by (simp add: mock_withdraw_def MockBankService_init_def)

text \<open>
  Claim C1.  In state \<open>ACCOUNT_SELECTED\<close> with a positive amount, \<open>withdraw\<close> checks in a
  fixed order.  If the dispenser reports insufficient cash, the call fails with
  \<open>InsufficientCashException\<close>; the dispenser's answer is the only collaborator invocation,
  so the bank is not asked for a debit and its state, the ledger, is unchanged.  If the
  dispenser has enough cash and the balance read from the bank at that moment is below the
  amount, the call fails with \<open>InsufficientFundsException\<close>; the cash check and the balance
  read are the only invocations, so there is no debit and no dispensing.  In every case the
  invocations a \<open>withdraw\<close> makes are an initial part of: cash check, balance read, debit,
  dispensing.
\<close>

theorem withdraw_check_order:
  assumes "state c = ACCOUNT_SELECTED" and "current_account c = Some held" and "0 < amt"
    and "has_sufficient_cash (dispenser_impl env) amt (cash_dispenser c) = (Inr enough, d1)"
  shows "(\<not> enough \<longrightarrow>
            withdraw env amt c
              = (Inl (InsufficientCashException ''ATM has insufficient cash''),
                 c\<lparr>cash_dispenser := d1,
                   calls := calls c @ [Dispenser_has_sufficient_cash amt (Inr False)]\<rparr>))
       \<and> (enough \<longrightarrow>
            (\<forall>bal b1.
               BankService.get_balance (bank_impl env) (Account.account_number held)
                   (bank_service c) = (Inr bal, b1) \<longrightarrow>
               bal < amt \<longrightarrow>
               withdraw env amt c
                 = (Inl (InsufficientFundsException ''Insufficient funds in account''),
                    c\<lparr>cash_dispenser := d1, bank_service := b1,
                      current_account := Some (held\<lparr>balance := bal\<rparr>),
                      calls := calls c @
                        [Dispenser_has_sufficient_cash amt (Inr True),
                         Bank_get_balance (Account.account_number held) (Inr bal)]\<rparr>)))
       \<and> (\<exists>new. calls (snd (withdraw env amt c)) = calls c @ new
              \<and> prefix (map call_name new)
                   [''has_sufficient_cash'', ''get_balance'', ''withdraw'', ''dispense_cash''])"
proof (intro conjI impI allI)
  assume "\<not> enough"
  with assms show "withdraw env amt c
              = (Inl (InsufficientCashException ''ATM has insufficient cash''),
                 c\<lparr>cash_dispenser := d1,
                   calls := calls c @ [Dispenser_has_sufficient_cash amt (Inr False)]\<rparr>)"
    by (simp add: withdraw_def call_has_sufficient_cash_eq)
next
  fix bal b1
  assume "enough"
    and "BankService.get_balance (bank_impl env) (Account.account_number held)
           (bank_service c) = (Inr bal, b1)"
    and "bal < amt"
  with assms show "withdraw env amt c
                 = (Inl (InsufficientFundsException ''Insufficient funds in account''),
                    c\<lparr>cash_dispenser := d1, bank_service := b1,
                      current_account := Some (held\<lparr>balance := bal\<rparr>),
                      calls := calls c @
                        [Dispenser_has_sufficient_cash amt (Inr True),
                         Bank_get_balance (Account.account_number held) (Inr bal)]\<rparr>)"
    by (simp add: withdraw_def get_balance_def call_has_sufficient_cash_eq call_get_balance_eq)
next
  show "\<exists>new. calls (snd (withdraw env amt c)) = calls c @ new
              \<and> prefix (map call_name new)
                   [''has_sufficient_cash'', ''get_balance'', ''withdraw'', ''dispense_cash'']"
    by (rule withdraw_calls_in_order)
qed

theorem withdraw_check_order_witness:
  "withdraw mock_env 6000 atm_account
     = (Inl (InsufficientCashException ''ATM has insufficient cash''),
        atm_account\<lparr>cash_dispenser := MockCashDispenser_init 5000,
                     calls := calls atm_account @ [Dispenser_has_sufficient_cash 6000 (Inr False)]\<rparr>)
   \<and> withdraw mock_env 1500 atm_account
     = (Inl (InsufficientFundsException ''Insufficient funds in account''),
        atm_account\<lparr>cash_dispenser := MockCashDispenser_init 5000,
                     bank_service := MockBankService_init,
                     current_account := Some (checking_1001\<lparr>balance := 1000\<rparr>),
                     calls := calls atm_account @
                       [Dispenser_has_sufficient_cash 1500 (Inr True),
                        Bank_get_balance ''1001'' (Inr 1000)]\<rparr>)"
proof -
  have s: "state atm_account = ACCOUNT_SELECTED"
    and a: "current_account atm_account = Some checking_1001"
    by (simp_all add: atm_account_eq)
  have p1: "(0::int) < 6000" and p2: "(0::int) < 1500"
    by simp_all
  have short: "has_sufficient_cash (dispenser_impl mock_env) 6000 (cash_dispenser atm_account)
                 = (Inr False, MockCashDispenser_init 5000)"
    by (simp add: atm_account_eq impl_defs mock_dispenser_facts)
  have enough: "has_sufficient_cash (dispenser_impl mock_env) 1500 (cash_dispenser atm_account)
                  = (Inr True, MockCashDispenser_init 5000)"
    by (simp add: atm_account_eq impl_defs mock_dispenser_facts)
  have bal: "BankService.get_balance (bank_impl mock_env) (Account.account_number checking_1001)
               (bank_service atm_account) = (Inr 1000, MockBankService_init)"
    by (simp add: atm_account_eq impl_defs mock_bank_facts number_1001)
  show ?thesis
    using withdraw_check_order [OF s a p1 short] withdraw_check_order [OF s a p2 enough] bal
    by (simp add: number_1001)
qed



text \<open>
  Claim C2, as stated: when the ledger debit succeeds and the dispensing that follows
  fails, \<open>withdraw\<close> surfaces a dedicated fatal error kind rather than a generic
  \<open>InsufficientCashException\<close>.  The source has no such kind and no handler around
  \<open>dispense_cash\<close>.  With a dispenser that counts enough cash and then fails to pay out,
  the bank has debited account 1001 (new balance 800) and \<open>withdraw\<close> raises the
  dispenser's own \<open>InsufficientCashException\<close>.
\<close>

theorem dispense_after_debit_reports_InsufficientCash:
  "fst (withdraw jammed_env 200 atm_account) = Inl (InsufficientCashException ''Dispenser jammed'')
   \<and> drop (length (calls atm_account)) (calls (snd (withdraw jammed_env 200 atm_account)))
       = [Dispenser_has_sufficient_cash 200 (Inr True),
          Bank_get_balance ''1001'' (Inr 1000),
          Bank_withdraw ''1001'' 200 (Inr 800),
          Dispenser_dispense_cash 200 (Inl (InsufficientCashException ''Dispenser jammed''))]"
  by (simp add: atm_account_eq withdraw_def get_balance_def call_has_sufficient_cash_eq
        call_get_balance_eq call_withdraw_eq call_dispense_cash_eq impl_defs mock_bank_facts
        mock_dispenser_facts number_1001 mock_withdraw_200 jammed_dispense_cash_def)

text \<open>
  Claim C2, amended: when the debit has succeeded and \<open>dispense_cash\<close> raises an exception,
  \<open>withdraw\<close> raises that same exception, whatever its class.  No transaction is logged, the
  state stays \<open>ACCOUNT_SELECTED\<close> with the same card, and the bank is left as the debit
  left it: nothing is credited back.
\<close>

theorem dispense_failure_propagates:
  assumes "state c = ACCOUNT_SELECTED" and "current_account c = Some held" and "0 < amt"
    and "has_sufficient_cash (dispenser_impl env) amt (cash_dispenser c) = (Inr True, d1)"
    and "BankService.get_balance (bank_impl env) (Account.account_number held) (bank_service c)
           = (Inr bal, b1)"
    and "amt \<le> bal"
    and "BankService.withdraw (bank_impl env) (Account.account_number held) amt b1
           = (Inr new_balance, b2)"
    and "dispense_cash (dispenser_impl env) amt d1 = (Inl e, d2)"
  shows "fst (withdraw env amt c) = Inl e
       \<and> state (snd (withdraw env amt c)) = ACCOUNT_SELECTED
       \<and> current_card (snd (withdraw env amt c)) = current_card c
       \<and> transaction_history (snd (withdraw env amt c)) = transaction_history c
       \<and> bank_service (snd (withdraw env amt c)) = b2
       \<and> cash_dispenser (snd (withdraw env amt c)) = d2
       \<and> calls (snd (withdraw env amt c))
           = calls c @ [Dispenser_has_sufficient_cash amt (Inr True),
                        Bank_get_balance (Account.account_number held) (Inr bal),
                        Bank_withdraw (Account.account_number held) amt (Inr new_balance),
                        Dispenser_dispense_cash amt (Inl e)]"
  using assms
  by (simp add: withdraw_def get_balance_def call_has_sufficient_cash_eq call_get_balance_eq
        call_withdraw_eq call_dispense_cash_eq)

theorem dispense_failure_propagates_witness:
  "fst (withdraw jammed_env 200 atm_account) = Inl (InsufficientCashException ''Dispenser jammed'')
   \<and> state (snd (withdraw jammed_env 200 atm_account)) = ACCOUNT_SELECTED
   \<and> transaction_history (snd (withdraw jammed_env 200 atm_account)) = []
   \<and> bank_service (snd (withdraw jammed_env 200 atm_account))
       = snd (mock_withdraw ''1001'' 200 MockBankService_init)"
proof -
  have s: "state atm_account = ACCOUNT_SELECTED"
    and a: "current_account atm_account = Some checking_1001"
    by (simp_all add: atm_account_eq)
  have p: "(0::int) < 200" and q: "(200::int) \<le> 1000"
    by simp_all
  have enough: "has_sufficient_cash (dispenser_impl jammed_env) 200 (cash_dispenser atm_account)
                  = (Inr True, MockCashDispenser_init 5000)"
    by (simp add: atm_account_eq impl_defs mock_dispenser_facts)
  have bal: "BankService.get_balance (bank_impl jammed_env)
               (Account.account_number checking_1001) (bank_service atm_account)
               = (Inr 1000, MockBankService_init)"
    by (simp add: atm_account_eq impl_defs mock_bank_facts number_1001)
  have debit: "BankService.withdraw (bank_impl jammed_env)
                 (Account.account_number checking_1001) 200 MockBankService_init
                 = (Inr 800, snd (mock_withdraw ''1001'' 200 MockBankService_init))"
    using mock_withdraw_200
    by (cases "mock_withdraw ''1001'' 200 MockBankService_init")
       (simp add: impl_defs number_1001)
  have jam: "dispense_cash (dispenser_impl jammed_env) 200 (MockCashDispenser_init 5000)
               = (Inl (InsufficientCashException ''Dispenser jammed''), MockCashDispenser_init 5000)"
    by (simp add: impl_defs jammed_dispense_cash_def)
  show ?thesis
    using dispense_failure_propagates [OF s a p enough bal q debit jam]
    by (simp add: atm_account_eq)
qed

subsection \<open>The transaction log\<close>

text \<open>The test \<open>test_multiple_transactions\<close> of the repository, on the mocks: three calls,
  three entries in call order, with balances 1500, 1300 and 1400.\<close>

lemma multiple_transactions_scenario:
  "map (\<lambda>t. (transaction_type t, amount t, balance_after t))
     (transaction_history
        (snd (run_ops mock_env [Deposit 500, Withdraw 200, Deposit 100] atm_account)))
   = [(DEPOSIT, 500, 1500), (WITHDRAWAL, 200, 1300), (DEPOSIT, 100, 1400)]"
  by (simp add: atm_account_eq controller_defs call_eqs impl_defs number_1001
        mock_deposit_def mock_withdraw_def mock_get_balance_def mock_has_sufficient_cash_def
        mock_dispense_cash_def MockBankService_init_def MockCashDispenser_init_def
        checking_1001_def counter_uuid4_def counter_now_def)

text \<open>
  Claim C6.  Within one session, that is along any run of operations without
  \<open>eject_card\<close> on a controller satisfying the session invariant, the transaction log is
  the log before the run followed by the transactions returned by the calls of the run, in
  call order: each deposit or withdraw call that returns adds exactly the transaction it
  returns, a call that fails adds nothing, and the entries already there stay as they were.
  So the log grows by the number of successful deposit and withdraw calls, and every
  transaction returned carries as \<open>balance_after\<close> the new balance the bank answered to the
  credit or debit of that call.
\<close>

theorem transaction_log_fidelity:
  assumes "session_inv c" and "Eject_card \<notin> set ops" and "run_ops env ops c = (outs, c')"
  shows "transaction_history c' = transaction_history c @ returned_transactions outs
       \<and> length (transaction_history c')
           = length (transaction_history c) + length (filter money_call_succeeded outs)
       \<and> map fst outs = ops
       \<and> (\<forall>(op, r, cs) \<in> set outs. \<forall>t. r = Inr (Returned_transaction t) \<longrightarrow>
              ledger_reported op (Transaction.account_number t) (balance_after t) cs)"
  using assms
proof (induction ops arbitrary: c outs)
  case Nil
  then show ?case by auto
next
  case (Cons op ops)
  obtain r c1 where step: "run_op env op c = (r, c1)" by (cases "run_op env op c")
  obtain outs1 c2 where rest: "run_ops env ops c1 = (outs1, c2)" by (cases "run_ops env ops c1")
  let ?cs = "drop (length (calls c)) (calls c1)"
  from Cons.prems(3) step rest have outs: "outs = (op, r, ?cs) # outs1" and c': "c' = c2"
    by simp_all
  from Cons.prems(1) have inv1: "session_inv c1"
    using session_inv_run_op [of c env op] step by simp
  from Cons.prems(2) have noeject: "Eject_card \<notin> set ops" and op: "op \<noteq> Eject_card"
    by auto
  from rest c' have rest': "run_ops env ops c1 = (outs1, c')" by simp
  note IH = Cons.IH [OF inv1 noeject rest']
  have log1: "transaction_history c1 = transaction_history c @ appended r"
    using log_run_op [OF Cons.prems(1) op, of env] step by simp
  have app: "returned_transactions ((op, r, ?cs) # outs1) = appended r @ returned_transactions outs1"
    by (cases r; cases "projr r") (auto simp: appended_def split: sum.splits returned.splits)
  have len: "length (appended r) = (if money_call_succeeded (op, r, ?cs) then 1 else 0)"
    using appended_length [of env op c ?cs] step by simp
  have rep: "\<forall>t. r = Inr (Returned_transaction t) \<longrightarrow>
               ledger_reported op (Transaction.account_number t) (balance_after t) ?cs"
    using reported_run_op [of env op c] step by simp
  show ?case
  proof (intro conjI)
    show "transaction_history c' = transaction_history c @ returned_transactions outs"
      using IH log1 app outs c' by simp
    from IH have "length (transaction_history c1 @ returned_transactions outs1)
           = length (transaction_history c1) + length (filter money_call_succeeded outs1)"
      by metis
    then have "length (returned_transactions outs1) = length (filter money_call_succeeded outs1)"
      by simp
    then show "length (transaction_history c')
           = length (transaction_history c) + length (filter money_call_succeeded outs)"
      using IH log1 len outs by simp
    show "map fst outs = op # ops"
      using IH outs by simp
    show "\<forall>(op, r, cs) \<in> set outs. \<forall>t. r = Inr (Returned_transaction t) \<longrightarrow>
              ledger_reported op (Transaction.account_number t) (balance_after t) cs"
      using IH rep outs by auto
  qed
qed


theorem transaction_log_fidelity_witness:
  "transaction_history
     (snd (run_ops mock_env [Deposit 500, Withdraw 200, Withdraw 6000, Deposit 0, Deposit 100]
             atm_account))
     = returned_transactions
         (fst (run_ops mock_env [Deposit 500, Withdraw 200, Withdraw 6000, Deposit 0, Deposit 100]
                 atm_account))
   \<and> length (transaction_history
        (snd (run_ops mock_env [Deposit 500, Withdraw 200, Withdraw 6000, Deposit 0, Deposit 100]
                atm_account)))
     = length (filter money_call_succeeded
         (fst (run_ops mock_env [Deposit 500, Withdraw 200, Withdraw 6000, Deposit 0, Deposit 100]
                 atm_account)))"
proof -
  let ?ops = "[Deposit 500, Withdraw 200, Withdraw 6000, Deposit 0, Deposit 100]"
  have n: "Eject_card \<notin> set ?ops"
    by simp
  have r: "run_ops mock_env ?ops atm_account
             = (fst (run_ops mock_env ?ops atm_account), snd (run_ops mock_env ?ops atm_account))"
    by (simp del: run_ops.simps)
  have e: "transaction_history atm_account = []"
    by (simp add: atm_account_eq)
  note t = transaction_log_fidelity [OF session_inv_atm_account n r]
  have log: "transaction_history (snd (run_ops mock_env ?ops atm_account))
               = returned_transactions (fst (run_ops mock_env ?ops atm_account))"
    using t [THEN conjunct1] by (simp only: e append_Nil)
  have len: "length (transaction_history (snd (run_ops mock_env ?ops atm_account)))
               = length (filter money_call_succeeded (fst (run_ops mock_env ?ops atm_account)))"
    using t [THEN conjunct2, THEN conjunct1] by (simp only: e list.size add_0)
  show ?thesis
    using log len by (rule conjI)
qed


end
